theory Spec2Isabelle
  imports Main "HOL-Library.Sublist" "HOL-Library.AList"
begin

section \<open>Errors\<close>

text \<open>
  Go's \<open>error\<close> values that reach the repository and the handlers. Errors produced by
  database/sql and the driver live in their own type: that package cannot refer to the
  sentinel \<open>models.ErrNoRecord\<close>, which package models creates with \<open>errors.New\<close>.
  \<open>Wrapped msg e\<close> is an error with message \<open>msg\<close> whose \<open>Unwrap\<close> gives \<open>e\<close>.
\<close>

datatype sql_error = ErrNoRows | DriverError string | Wrapped string sql_error

datatype error = ErrNoRecord | SqlError sql_error

fun sql_chain :: "sql_error \<Rightarrow> sql_error list" where
  "sql_chain (Wrapped msg e) = Wrapped msg e # sql_chain e"
| "sql_chain e = [e]"

fun chain :: "error \<Rightarrow> error list" where
  "chain ErrNoRecord = [ErrNoRecord]"
| "chain (SqlError e) = map SqlError (sql_chain e)"

text \<open>\<open>errors.Is\<close>: the target is compared with every error of the \<open>Unwrap\<close> chain.\<close>

definition sql_errors_Is :: "sql_error \<Rightarrow> sql_error \<Rightarrow> bool" where
  "sql_errors_Is err target = (target \<in> set (sql_chain err))"

definition errors_Is :: "error \<Rightarrow> error \<Rightarrow> bool" where
  "errors_Is err target = (target \<in> set (chain err))"

text \<open>The \<open>Error()\<close> method: the message string of an error.\<close>

fun sql_Error :: "sql_error \<Rightarrow> string" where
  "sql_Error ErrNoRows = ''sql: no rows in result set''"
| "sql_Error (DriverError msg) = msg"
| "sql_Error (Wrapped msg e) = msg"

fun Error :: "error \<Rightarrow> string" where
  "Error ErrNoRecord = ''models: no matching record found''"
| "Error (SqlError e) = sql_Error e"

section \<open>The snippets table and the SQL statements\<close>

text \<open>
  Timestamps are seconds on the database server's clock. A table row lists the columns
  in the order of the SELECT lists: id, title, content, created, expires.
\<close>

type_synonym time = int

type_synonym row = "int \<times> string \<times> string \<times> time \<times> time"

definition col_id :: "row \<Rightarrow> int" where
  "col_id r = fst r"

definition col_title :: "row \<Rightarrow> string" where
  "col_title r = fst (snd r)"

definition col_content :: "row \<Rightarrow> string" where
  "col_content r = fst (snd (snd r))"

definition col_created :: "row \<Rightarrow> time" where
  "col_created r = fst (snd (snd (snd r)))"

definition col_expires :: "row \<Rightarrow> time" where
  "col_expires r = snd (snd (snd (snd r)))"

datatype statement = InsertSnippet string string int | SelectById int | SelectLatest

text \<open>
  The database as the repository sees it: the rows of table snippets, the AUTO_INCREMENT
  counter of its id column, and the statements submitted so far.
\<close>

record database =
  snippets_table :: "row list"
  auto_increment :: int
  submitted :: "statement list"

definition submit :: "statement \<Rightarrow> database \<Rightarrow> database" where
  "submit st db = db\<lparr>submitted := submitted db @ [st]\<rparr>"

text \<open>The id column is the primary key, and the counter lies above every id in use.\<close>

definition primary_key :: "database \<Rightarrow> bool" where
  "primary_key db =
     (distinct (map col_id (snippets_table db)) \<and>
      list_all (\<lambda>r. col_id r < auto_increment db) (snippets_table db))"

text \<open>
  \<^verbatim>\<open>INSERT INTO snippets(title, content, created, expires)
  VALUES(?, ?, NOW(), DATE_ADD(NOW(), INTERVAL ? DAY))\<close>
\<close>

definition seconds_per_day :: int where
  "seconds_per_day = 86400"

definition insert_snippet :: "time \<Rightarrow> string \<Rightarrow> string \<Rightarrow> int \<Rightarrow> database \<Rightarrow> database" where
  "insert_snippet now t c days db =
     db\<lparr>snippets_table :=
          snippets_table db @ [(auto_increment db, t, c, now, now + days * seconds_per_day)],
        auto_increment := auto_increment db + 1\<rparr>"

text \<open>
  \<^verbatim>\<open>SELECT id, title, content, created, expires FROM snippets
  WHERE expires > NOW() AND id = ?\<close>
\<close>

definition select_by_id :: "time \<Rightarrow> int \<Rightarrow> database \<Rightarrow> row list" where
  "select_by_id now i db =
     filter (\<lambda>r. col_expires r > now \<and> col_id r = i) (snippets_table db)"

text \<open>
  \<^verbatim>\<open>SELECT id, title, content, created, expires FROM snippets
  ORDER BY id DESC LIMIT 10\<close>
\<close>

definition order_by_id_desc :: "row list \<Rightarrow> row list" where
  "order_by_id_desc rs = sort_key (\<lambda>r. - col_id r) rs"

definition select_latest :: "database \<Rightarrow> row list" where
  "select_latest db = take 10 (order_by_id_desc (snippets_table db))"

section \<open>database/sql as the repository uses it\<close>

text \<open>
  What the driver does to one repository call: each field is the fault, if any, that the
  corresponding library call reports. \<open>rows_err = Some (n, e)\<close> is a cursor that
  delivers at most \<open>n\<close> rows and then stops with \<open>e\<close>.
\<close>

record driver =
  exec_err :: "sql_error option"
  last_insert_id_err :: "sql_error option"
  query_err :: "sql_error option"
  rows_err :: "(nat \<times> sql_error) option"
  scan_err :: "row \<Rightarrow> sql_error option"

definition healthy :: driver where
  "healthy = \<lparr>exec_err = None, last_insert_id_err = None, query_err = None,
              rows_err = None, scan_err = (\<lambda>r. None)\<rparr>"

record Snippet =
  ID :: int
  title :: string
  content :: string
  created :: time
  expires :: time

text \<open>
  A \<open>sql.Rows\<close> cursor: the rows it will still deliver, the fault that ends it after
  them, if any, and \<open>lasterr\<close>, the error that \<open>Err()\<close> reports. A new cursor reports
  none; \<open>Next\<close> records the fault when it finds no further row.
\<close>

record Rows =
  pending :: "row list"
  fault :: "sql_error option"
  lasterr :: "sql_error option"

definition open_cursor :: "driver \<Rightarrow> row list \<Rightarrow> Rows" where
  "open_cursor drv rs =
     (case rows_err drv of
        None \<Rightarrow> \<lparr>pending = rs, fault = None, lasterr = None\<rparr>
      | Some (n, e) \<Rightarrow> \<lparr>pending = take n rs, fault = Some e, lasterr = None\<rparr>)"

definition Stmt_Query :: "driver \<Rightarrow> row list \<Rightarrow> sql_error + Rows" where
  "Stmt_Query drv rs =
     (case query_err drv of Some e \<Rightarrow> Inl e | None \<Rightarrow> Inr (open_cursor drv rs))"

definition Rows_Next :: "Rows \<Rightarrow> row option \<times> Rows" where
  "Rows_Next rows =
     (case pending rows of
        [] \<Rightarrow> (None, rows\<lparr>lasterr := fault rows\<rparr>)
      | r # rs \<Rightarrow> (Some r, rows\<lparr>pending := rs\<rparr>))"

definition Rows_Err :: "Rows \<Rightarrow> sql_error option" where
  "Rows_Err rows = lasterr rows"

text \<open>
  \<open>Scan(&s.ID, &s.title, &s.content, &s.created, &s.expires)\<close>: the columns go to
  the fields by position.
\<close>

definition snippet_of_row :: "row \<Rightarrow> Snippet" where
  "snippet_of_row r =
     \<lparr>ID = col_id r, title = col_title r, content = col_content r,
      created = col_created r, expires = col_expires r\<rparr>"

definition Rows_Scan :: "driver \<Rightarrow> row \<Rightarrow> sql_error + Snippet" where
  "Rows_Scan drv r =
     (case scan_err drv r of Some e \<Rightarrow> Inl e | None \<Rightarrow> Inr (snippet_of_row r))"

text \<open>
  \<open>Row.Scan\<close> after \<open>QueryRow\<close>: the deferred query error first, then
  \<open>sql.ErrNoRows\<close> when the cursor has no row, else the scan of the first row. The
  closing of the cursor after that scan is not modelled.
\<close>

definition Row_Scan :: "driver \<Rightarrow> sql_error + Rows \<Rightarrow> sql_error + Snippet" where
  "Row_Scan drv row =
     (case row of
        Inl e \<Rightarrow> Inl e
      | Inr rows \<Rightarrow>
          (case Rows_Next rows of
             (None, rows') \<Rightarrow>
               (case Rows_Err rows' of Some e \<Rightarrow> Inl e | None \<Rightarrow> Inl ErrNoRows)
           | (Some r, rows') \<Rightarrow> Rows_Scan drv r))"

text \<open>
  \<open>Stmt.Exec\<close> of the insert statement; the \<open>sql.Result\<close> holds the id the table
  assigned. A failed execution stores nothing.
\<close>

definition InsertStmt_Exec ::
  "driver \<Rightarrow> time \<Rightarrow> database \<Rightarrow> string \<Rightarrow> string \<Rightarrow> int \<Rightarrow> (sql_error + int) \<times> database" where
  "InsertStmt_Exec drv now db t c days =
     (let db' = submit (InsertSnippet t c days) db in
      case exec_err drv of
        Some e \<Rightarrow> (Inl e, db')
      | None \<Rightarrow> (Inr (auto_increment db'), insert_snippet now t c days db'))"

definition Result_LastInsertId :: "driver \<Rightarrow> int \<Rightarrow> sql_error + int" where
  "Result_LastInsertId drv result =
     (case last_insert_id_err drv of Some e \<Rightarrow> Inl e | None \<Rightarrow> Inr result)"

section \<open>SnippetModel\<close>

text \<open>
  The three methods return Go's pairs \<open>(value, error)\<close>, with \<open>None\<close> for a nil
  error, a nil pointer and a nil slice, next to the database after the call. Go's
  \<open>int\<close> has 64 bits here, so \<open>int(id)\<close> keeps the \<open>int64\<close>.
\<close>

definition Insert ::
  "driver \<Rightarrow> time \<Rightarrow> database \<Rightarrow> string \<Rightarrow> string \<Rightarrow> int \<Rightarrow> (int \<times> error option) \<times> database" where
  "Insert drv now db title' content' expires' =
     (case InsertStmt_Exec drv now db title' content' expires' of
        (Inl err, db') \<Rightarrow> ((0, Some (SqlError err)), db')
      | (Inr result, db') \<Rightarrow>
          (case Result_LastInsertId drv result of
             Inl err \<Rightarrow> ((0, Some (SqlError err)), db')
           | Inr id' \<Rightarrow> ((id', None), db')))"

definition GetStmt_QueryRow :: "driver \<Rightarrow> time \<Rightarrow> database \<Rightarrow> int \<Rightarrow> sql_error + Rows" where
  "GetStmt_QueryRow drv now db i = Stmt_Query drv (select_by_id now i db)"

definition Get ::
  "driver \<Rightarrow> time \<Rightarrow> database \<Rightarrow> int \<Rightarrow> (Snippet option \<times> error option) \<times> database" where
  "Get drv now db i =
     (let row = GetStmt_QueryRow drv now db i;
          db' = submit (SelectById i) db
      in case Row_Scan drv row of
           Inl err \<Rightarrow>
             if sql_errors_Is err ErrNoRows then ((None, Some ErrNoRecord), db')
             else ((None, Some (SqlError err)), db')
         | Inr s \<Rightarrow> ((Some s, None), db'))"

text \<open>
  The loop \<open>for rows.Next() { ... }\<close> of \<open>Latest\<close>: it returns the scan error that
  ended it, if any, the snippets appended so far, and the cursor as the loop left it.
\<close>

function Latest_loop :: "driver \<Rightarrow> Rows \<Rightarrow> Snippet list \<Rightarrow> sql_error option \<times> Snippet list \<times> Rows" where
  "Latest_loop drv rows snippets =
     (case Rows_Next rows of
        (None, rows') \<Rightarrow> (None, snippets, rows')
      | (Some r, rows') \<Rightarrow>
          (case Rows_Scan drv r of
             Inl err \<Rightarrow> (Some err, snippets, rows')
           | Inr s \<Rightarrow> Latest_loop drv rows' (snippets @ [s])))"
  by pat_completeness auto
termination
  by (relation "measure (\<lambda>(drv, rows, snippets). length (pending rows))")
     (auto simp: Rows_Next_def split: list.splits)

definition LatestStmt_Query :: "driver \<Rightarrow> database \<Rightarrow> sql_error + Rows" where
  "LatestStmt_Query drv db = Stmt_Query drv (select_latest db)"

definition Latest :: "driver \<Rightarrow> database \<Rightarrow> (Snippet list option \<times> error option) \<times> database" where
  "Latest drv db =
     (let db' = submit SelectLatest db in
      case LatestStmt_Query drv db of
        Inl err \<Rightarrow> ((None, Some (SqlError err)), db')
      | Inr rows \<Rightarrow>
          (case Latest_loop drv rows [] of
             (Some err, snippets, rows') \<Rightarrow> ((None, Some (SqlError err)), db')
           | (None, snippets, rows') \<Rightarrow>
               (case Rows_Err rows' of
                  Some err \<Rightarrow> ((None, Some (SqlError err)), db')
                | None \<Rightarrow> ((Some snippets, None), db'))))"

section \<open>strconv, net/http, log and runtime/debug as the handlers use them\<close>

definition LF :: string where
  "LF = [CHR 0x0A]"

definition is_digit :: "char \<Rightarrow> bool" where
  "is_digit c = (48 \<le> (of_char c :: nat) \<and> (of_char c :: nat) \<le> 57)"

definition digit_val :: "char \<Rightarrow> int" where
  "digit_val c = int (of_char c) - 48"

definition digits_val :: "string \<Rightarrow> int" where
  "digits_val ds = foldl (\<lambda>n c. n * 10 + digit_val c) 0 ds"

datatype NumError = ErrSyntax | ErrRange

definition unsigned :: "string \<Rightarrow> string" where
  "unsigned s = (case s of [] \<Rightarrow> [] | c # cs \<Rightarrow> if c = CHR ''-'' \<or> c = CHR ''+'' then cs else s)"

definition negative :: "string \<Rightarrow> bool" where
  "negative s = (case s of [] \<Rightarrow> False | c # cs \<Rightarrow> c = CHR ''-'')"

text \<open>
  \<open>strconv.Atoi\<close> for a 64-bit \<open>int\<close>: an optional sign and one or more decimal
  digits; a syntax error gives 0, a value out of range gives the nearest bound, both with
  a non-nil error.
\<close>

definition Atoi :: "string \<Rightarrow> int \<times> NumError option" where
  "Atoi s =
     (let ds = unsigned s in
      if ds = [] \<or> \<not> list_all is_digit ds then (0, Some ErrSyntax)
      else
        let n = digits_val ds in
        if negative s then (if 2 ^ 63 < n then (- (2 ^ 63), Some ErrRange) else (- n, None))
        else (if 2 ^ 63 \<le> n then (2 ^ 63 - 1, Some ErrRange) else (n, None)))"

definition digit_char :: "nat \<Rightarrow> char" where
  "digit_char d = char_of (48 + d)"

function nat_digits :: "nat \<Rightarrow> string" where
  "nat_digits n = (if n < 10 then [digit_char n] else nat_digits (n div 10) @ [digit_char (n mod 10)])"
  by pat_completeness auto
termination
  by (relation "measure (\<lambda>n. n)") auto

text \<open>The verb \<open>%d\<close> of package fmt.\<close>

definition Itoa :: "int \<Rightarrow> string" where
  "Itoa i = (if i < 0 then CHR ''-'' # nat_digits (nat (- i)) else nat_digits (nat i))"

text \<open>
  A request as the handlers read it: the method, the path and the parsed query string
  (\<open>r.URL.Query()\<close>), a list of key and value in the order of the URL.
\<close>

record Request =
  Method :: string
  URL_Path :: string
  URL_Query :: "(string \<times> string) list"

text \<open>\<open>url.Values.Get\<close>: the first value of the key, the empty string without one.\<close>

definition Values_Get :: "(string \<times> string) list \<Rightarrow> string \<Rightarrow> string" where
  "Values_Get vs key = (case map_of vs key of None \<Rightarrow> [] | Some v \<Rightarrow> v)"

text \<open>
  The response as the client sees it. \<open>Status = 0\<close> means that the header has not been
  written; once it is written, the status and the headers are fixed.
\<close>

record ResponseWriter =
  Header :: "(string \<times> string) list"
  Status :: nat
  Body :: string

definition Header_Set :: "string \<Rightarrow> string \<Rightarrow> ResponseWriter \<Rightarrow> ResponseWriter" where
  "Header_Set key v w = (if Status w = 0 then w\<lparr>Header := AList.update key v (Header w)\<rparr> else w)"

definition Header_Del :: "string \<Rightarrow> ResponseWriter \<Rightarrow> ResponseWriter" where
  "Header_Del key w = (if Status w = 0 then w\<lparr>Header := AList.delete key (Header w)\<rparr> else w)"

definition WriteHeader :: "nat \<Rightarrow> ResponseWriter \<Rightarrow> ResponseWriter" where
  "WriteHeader code w = (if Status w = 0 then w\<lparr>Status := code\<rparr> else w)"

definition Write :: "string \<Rightarrow> ResponseWriter \<Rightarrow> ResponseWriter" where
  "Write s w = (let w' = WriteHeader 200 w in w'\<lparr>Body := Body w' @ s\<rparr>)"

text \<open>\<open>http.StatusText\<close>, for the status codes this program sends.\<close>

definition StatusText :: "nat \<Rightarrow> string" where
  "StatusText code =
     (if code = 200 then ''OK''
      else if code = 303 then ''See Other''
      else if code = 404 then ''Not Found''
      else if code = 405 then ''Method Not Allowed''
      else if code = 500 then ''Internal Server Error''
      else [])"

definition http_Error :: "ResponseWriter \<Rightarrow> string \<Rightarrow> nat \<Rightarrow> ResponseWriter" where
  "http_Error w msg code =
     Write (msg @ LF)
       (WriteHeader code
         (Header_Set ''X-Content-Type-Options'' ''nosniff''
           (Header_Set ''Content-Type'' ''text/plain; charset=utf-8''
             (Header_Del ''Content-Length'' w))))"

text \<open>
  \<open>http.Redirect\<close> to a URL that starts with a slash and has no character that the
  header or HTML escaping would change, as the URL of \<open>snippetCreate\<close> is.
\<close>

definition http_Redirect :: "ResponseWriter \<Rightarrow> Request \<Rightarrow> string \<Rightarrow> nat \<Rightarrow> ResponseWriter" where
  "http_Redirect w r url code =
     (let hadCT = (map_of (Header w) ''Content-Type'' \<noteq> None);
          w1 = Header_Set ''Location'' url w;
          w2 = (if \<not> hadCT \<and> (Method r = ''GET'' \<or> Method r = ''HEAD'')
                then Header_Set ''Content-Type'' ''text/html; charset=utf-8'' w1 else w1);
          w3 = WriteHeader code w2
      in if \<not> hadCT \<and> Method r = ''GET''
         then Write (''<a href=\"'' @ url @ ''\">'' @ StatusText code @ ''</a>.'' @ LF @ LF) w3
         else w3)"

text \<open>
  A frame of the call stack: the function and the line it is executing. A stack lists its
  frames from the innermost outwards.
\<close>

datatype frame = Frame string nat

definition frame_text :: "frame \<Rightarrow> string" where
  "frame_text f = (case f of Frame fn line \<Rightarrow> fn @ '':'' @ Itoa (int line) @ LF)"

text \<open>\<open>debug.Stack()\<close>: the text of every frame of the calling goroutine.\<close>

definition debug_Stack :: "frame list \<Rightarrow> string" where
  "debug_Stack stack = concat (map frame_text stack)"

text \<open>\<open>runtime.Caller(skip)\<close>: the frame \<open>skip\<close> levels above the innermost one.\<close>

definition runtime_Caller :: "nat \<Rightarrow> frame list \<Rightarrow> frame option" where
  "runtime_Caller skip stack = (if skip < length stack then Some (stack ! skip) else None)"

text \<open>
  A record of the error log, which is set up with \<open>log.Lshortfile\<close>: the source location
  and the message. \<open>Logger.Output\<close> takes the location \<open>calldepth\<close> frames above its
  own, so depth 1 is the function that calls \<open>Output\<close>.
\<close>

record log_entry =
  location :: "frame option"
  message :: string

definition Logger_Output :: "nat \<Rightarrow> string \<Rightarrow> frame list \<Rightarrow> log_entry list \<Rightarrow> log_entry list" where
  "Logger_Output calldepth s stack log =
     log @ [\<lparr>location = runtime_Caller calldepth (Frame ''log.(*Logger).Output'' 0 # stack),
             message = s\<rparr>]"

section \<open>The application: helpers and handlers\<close>

text \<open>
  The application holds the error log and, through \<open>app.snippets\<close>, the database. The
  handlers take the call stack of their caller, the driver's behaviour and the server time
  of the request.
\<close>

record application =
  errorLog :: "log_entry list"
  snippets :: database

definition serverError ::
  "frame list \<Rightarrow> application \<Rightarrow> ResponseWriter \<Rightarrow> error \<Rightarrow> ResponseWriter \<times> application" where
  "serverError stack app w err =
     (let trace = Error err @ LF @ debug_Stack (Frame ''serverError'' 13 # stack);
          app' = app\<lparr>errorLog :=
                   Logger_Output 2 trace (Frame ''serverError'' 16 # stack) (errorLog app)\<rparr>
      in (http_Error w (StatusText 500) 500, app'))"

definition clientError :: "ResponseWriter \<Rightarrow> nat \<Rightarrow> ResponseWriter" where
  "clientError w status = http_Error w (StatusText status) status"

definition notFound :: "ResponseWriter \<Rightarrow> ResponseWriter" where
  "notFound w = clientError w 404"

text \<open>
  \<open>fmt.Fprintf(w, "%+v", snippet)\<close> for a pointer to a Snippet; how package fmt prints
  a \<open>time.Time\<close> field is the parameter \<open>show_time\<close>.
\<close>

definition Sprintf_plus_v :: "(time \<Rightarrow> string) \<Rightarrow> Snippet option \<Rightarrow> string" where
  "Sprintf_plus_v show_time snippet =
     (case snippet of
        None \<Rightarrow> ''<nil>''
      | Some s \<Rightarrow>
          ''&{ID:'' @ Itoa (ID s) @ '' title:'' @ title s @ '' content:'' @ content s @
          '' created:'' @ show_time (created s) @ '' expires:'' @ show_time (expires s) @ ''}'')"

definition snippetView ::
  "(time \<Rightarrow> string) \<Rightarrow> driver \<Rightarrow> time \<Rightarrow> frame list \<Rightarrow> application \<Rightarrow> ResponseWriter \<Rightarrow> Request
     \<Rightarrow> ResponseWriter \<times> application" where
  "snippetView show_time drv now stack app w r =
     (case Atoi (Values_Get (URL_Query r) ''id'') of
        (id', err) \<Rightarrow>
          if err \<noteq> None \<or> id' < 1 then (notFound w, app)
          else
            (case Get drv now (snippets app) id' of
               ((snippet, err), db') \<Rightarrow>
                 let app' = app\<lparr>snippets := db'\<rparr> in
                 (case err of
                    Some e \<Rightarrow>
                      if errors_Is e ErrNoRecord then (notFound w, app')
                      else serverError (Frame ''snippetView'' 71 # stack) app' w e
                  | None \<Rightarrow> (Write (Sprintf_plus_v show_time snippet) w, app'))))"

definition snippetCreate ::
  "driver \<Rightarrow> time \<Rightarrow> frame list \<Rightarrow> application \<Rightarrow> ResponseWriter \<Rightarrow> Request
     \<Rightarrow> ResponseWriter \<times> application" where
  "snippetCreate drv now stack app w r =
     (if Method r \<noteq> ''POST''
      then (clientError (Header_Set ''Allow'' ''POST'' w) 405, app)
      else
        let title' = ''O snail'';
            content' = ''O snail'' @ LF @ ''Climb Mount Fuji,'' @ LF @ ''But slowly, slowly!'' @ LF @ LF @
                       ''- Kobayashi Issa'';
            expires' = 7
        in
          (case Insert drv now (snippets app) title' content' expires' of
             ((id', err), db') \<Rightarrow>
               let app' = app\<lparr>snippets := db'\<rparr> in
               (case err of
                  Some e \<Rightarrow> serverError (Frame ''snippetCreate'' 101 # stack) app' w e
                | None \<Rightarrow> (http_Redirect w r (''/snippet/view?id='' @ Itoa id') 303, app'))))"

text \<open>
  Left out of the model: \<open>home\<close>, whose page comes from the template engine, and the
  deferred \<open>rows.Close()\<close> of \<open>Latest\<close>, whose result the code does not read (after a
  full iteration the cursor is closed already).
\<close>

section \<open>Example data\<close>

text \<open>A table with an expired row (id 1) and two live rows at server time 100.\<close>

definition example_db :: database where
  "example_db =
     \<lparr>snippets_table =
        [(1, ''first'', ''one'', 0, 50), (3, ''third'', ''three'', 10, 500),
         (2, ''second'', ''two'', 5, 300)],
      auto_increment = 4, submitted = []\<rparr>"

definition broken_cursor :: driver where
  "broken_cursor = healthy\<lparr>rows_err := Some (1, DriverError ''invalid connection'')\<rparr>"

definition failing_driver :: driver where
  "failing_driver = healthy\<lparr>exec_err := Some (DriverError ''bad connection''),
                             query_err := Some (DriverError ''bad connection'')\<rparr>"

definition failing_scan :: driver where
  "failing_scan = healthy\<lparr>scan_err := (\<lambda>r. Some (DriverError ''unsupported Scan''))\<rparr>"

definition failing_cursor :: driver where
  "failing_cursor = healthy\<lparr>rows_err := Some (0, DriverError ''invalid connection'')\<rparr>"

definition fresh_writer :: ResponseWriter where
  "fresh_writer = \<lparr>Header = [], Status = 0, Body = []\<rparr>"

definition example_app :: application where
  "example_app = \<lparr>errorLog = [], snippets = example_db\<rparr>"

definition view_request :: "(string \<times> string) list \<Rightarrow> Request" where
  "view_request q = \<lparr>Method = ''GET'', URL_Path = ''/snippet/view'', URL_Query = q\<rparr>"

definition create_request :: "string \<Rightarrow> Request" where
  "create_request m = \<lparr>Method = m, URL_Path = ''/snippet/create'', URL_Query = []\<rparr>"

section \<open>The cursor loop and the queries\<close>

declare Latest_loop.simps [simp del]

lemmas cols = col_id_def col_title_def col_content_def col_created_def col_expires_def

lemmas sql_defs = Stmt_Query_def open_cursor_def Rows_Next_def Rows_Err_def Rows_Scan_def
  Row_Scan_def snippet_of_row_def submit_def

lemmas atoi_defs = Atoi_def unsigned_def negative_def digits_val_def digit_val_def is_digit_def
  Values_Get_def

text \<open>
  What the loop returns: it keeps the cursor's fault; it ends without a scan error only on
  an empty cursor, on which \<open>Err()\<close> now reports the fault, with every row mapped in
  order; and a scan error it returns is the error of one of the rows.
\<close>

lemma Latest_loop_result:
  "Latest_loop drv rows acc = (e, out, rows') \<Longrightarrow>
     fault rows' = fault rows \<and>
     (e = None \<longrightarrow> pending rows' = [] \<and> lasterr rows' = fault rows \<and>
        out = acc @ map snippet_of_row (pending rows) \<and>
        (\<forall>r\<in>set (pending rows). scan_err drv r = None)) \<and>
     (\<forall>err. e = Some err \<longrightarrow> (\<exists>r\<in>set (pending rows). scan_err drv r = Some err))"
proof (induction "pending rows" arbitrary: rows acc)
  case Nil
  from Nil(1) have "pending rows = []" by simp
  with Nil(2) show ?case
    by (auto simp add: Latest_loop.simps[of drv rows] Rows_Next_def)
next
  case (Cons r rs)
  from Cons(2) have p: "pending rows = r # rs" by simp
  show ?case
  proof (cases "scan_err drv r")
    case None
    let ?rows = "rows\<lparr>pending := rs\<rparr>"
    from p None Cons(3) have "Latest_loop drv ?rows (acc @ [snippet_of_row r]) = (e, out, rows')"
      by (simp add: Latest_loop.simps[of drv rows] Rows_Next_def Rows_Scan_def)
    from Cons(1)[OF _ this] p None show ?thesis by simp
  next
    case (Some err)
    with p Cons(3) have "e = Some err" "out = acc" "rows' = rows\<lparr>pending := rs\<rparr>"
      by (simp_all add: Latest_loop.simps[of drv rows] Rows_Next_def Rows_Scan_def)
    with p Some show ?thesis by simp
  qed
qed

lemma Latest_loop_drains:
  assumes "Latest_loop drv rows [] = (None, ss, rows')"
  shows "pending rows' = [] \<and> Rows_Err rows' = fault rows \<and>
         ss = map snippet_of_row (pending rows)"
  using Latest_loop_result[OF assms] by (simp add: Rows_Err_def)

lemma Latest_loop_scans:
  assumes "\<forall>r\<in>set (pending rows). scan_err drv r = None"
  shows "\<exists>rows'. Latest_loop drv rows [] = (None, map snippet_of_row (pending rows), rows') \<and>
           Rows_Err rows' = fault rows"
proof -
  obtain e out rows' where l: "Latest_loop drv rows [] = (e, out, rows')"
    by (cases "Latest_loop drv rows []") auto
  from Latest_loop_result[OF l] assms have "e = None" by (cases e) auto
  with Latest_loop_result[OF l] l show ?thesis by (simp add: Rows_Err_def)
qed

lemma open_cursor_fresh: "Rows_Err (open_cursor drv rs) = None"
  by (simp add: open_cursor_def Rows_Err_def split: option.splits)

lemma open_cursor_pending:
  "pending (open_cursor drv rs) = r # rest \<Longrightarrow> \<exists>rest'. rs = r # rest'"
  by (cases rs; cases "rows_err drv")
     (auto simp: open_cursor_def take_Cons split: nat.splits)

lemma Row_Scan_Inr:
  assumes "Row_Scan drv (Stmt_Query drv rs) = Inr s"
  shows "\<exists>r rest. rs = r # rest \<and> scan_err drv r = None \<and> s = snippet_of_row r"
proof -
  from assms obtain rows where q: "Stmt_Query drv rs = Inr rows"
    by (cases "Stmt_Query drv rs") (simp_all add: Row_Scan_def)
  then have rows: "rows = open_cursor drv rs"
    by (simp add: Stmt_Query_def split: option.splits)
  from assms q obtain r rest where p: "pending rows = r # rest" and sc: "Rows_Scan drv r = Inr s"
    by (cases "pending rows")
       (auto simp: Row_Scan_def Rows_Next_def Rows_Err_def split: option.splits)
  from p rows obtain rest' where "rs = r # rest'"
    using open_cursor_pending by blast
  moreover from sc have "scan_err drv r = None" "s = snippet_of_row r"
    by (auto simp: Rows_Scan_def split: option.splits)
  ultimately show ?thesis by blast
qed

section \<open>The results of the three methods\<close>

lemma Insert_result:
  "fst (Insert drv now db t c d) =
     (case exec_err drv of Some e \<Rightarrow> (0, Some (SqlError e))
      | None \<Rightarrow> (case last_insert_id_err drv of Some e \<Rightarrow> (0, Some (SqlError e))
                 | None \<Rightarrow> (auto_increment db, None)))"
  by (simp add: Insert_def InsertStmt_Exec_def Result_LastInsertId_def Let_def submit_def
      split: option.splits)

lemma Insert_ok:
  assumes "Insert drv now db t c days = ((i, None), db')"
  shows "exec_err drv = None \<and> last_insert_id_err drv = None \<and> i = auto_increment db \<and>
         db' = insert_snippet now t c days (submit (InsertSnippet t c days) db)"
  using assms
  by (auto simp: Insert_def InsertStmt_Exec_def Result_LastInsertId_def Let_def submit_def
           split: option.splits)

text \<open>Every call of \<open>Insert\<close> keeps the primary key.\<close>

lemma primary_key_Insert:
  assumes "primary_key db"
  shows "primary_key (snd (Insert drv now db t c d))"
  using assms
  by (auto simp: Insert_def InsertStmt_Exec_def Result_LastInsertId_def Let_def submit_def
        insert_snippet_def primary_key_def list_all_iff cols split: option.splits)

lemma select_inserted:
  assumes "primary_key db" and "now' < now + days * seconds_per_day"
  shows "select_by_id now' (auto_increment db)
           (insert_snippet now t c days (submit st db)) =
         [(auto_increment db, t, c, now, now + days * seconds_per_day)]"
proof -
  have "filter (\<lambda>r. now' < col_expires r \<and> col_id r = auto_increment db) (snippets_table db) = []"
    using assms(1) by (auto simp: primary_key_def list_all_iff filter_empty_conv)
  with assms(2) show ?thesis
    by (simp add: select_by_id_def insert_snippet_def submit_def col_id_def col_expires_def)
qed

lemma Get_result:
  "fst (Get drv now db i) =
     (case Row_Scan drv (GetStmt_QueryRow drv now db i) of
        Inl e \<Rightarrow> (None, Some (if sql_errors_Is e ErrNoRows then ErrNoRecord else SqlError e))
      | Inr s \<Rightarrow> (Some s, None))"
  by (simp add: Get_def Let_def split: sum.splits)

lemma Get_Some:
  assumes "fst (Get drv now db i) = (Some s, e)"
  shows "Row_Scan drv (Stmt_Query drv (select_by_id now i db)) = Inr s"
  using assms
  by (cases "Row_Scan drv (Stmt_Query drv (select_by_id now i db))")
     (simp_all add: Get_def Let_def GetStmt_QueryRow_def split: if_splits)

lemma Latest_result:
  "fst (Latest drv db) =
     (case LatestStmt_Query drv db of
        Inl e \<Rightarrow> (None, Some (SqlError e))
      | Inr rows \<Rightarrow>
          (case Latest_loop drv rows [] of
             (Some e, ss, rows') \<Rightarrow> (None, Some (SqlError e))
           | (None, ss, rows') \<Rightarrow>
               (case Rows_Err rows' of Some e \<Rightarrow> (None, Some (SqlError e))
                | None \<Rightarrow> (Some ss, None))))"
  by (simp add: Latest_def Let_def split: sum.splits option.splits prod.splits)

text \<open>A successful \<open>Latest\<close> met no fault and returns the whole result of its statement.\<close>

lemma Latest_Some:
  assumes "fst (Latest drv db) = (Some ss, e)"
  shows "query_err drv = None \<and> rows_err drv = None \<and>
         (\<forall>r\<in>set (select_latest db). scan_err drv r = None) \<and>
         ss = map snippet_of_row (select_latest db)"
proof -
  from assms obtain rows where q: "LatestStmt_Query drv db = Inr rows"
    by (cases "LatestStmt_Query drv db") (simp_all add: Latest_def Let_def)
  then have qe: "query_err drv = None" and rows: "rows = open_cursor drv (select_latest db)"
    by (simp_all add: LatestStmt_Query_def Stmt_Query_def split: option.splits)
  obtain e' out rows' where l: "Latest_loop drv rows [] = (e', out, rows')"
    by (cases "Latest_loop drv rows []") auto
  from assms q l have e': "e' = None" and err: "Rows_Err rows' = None" and out: "out = ss"
    by (auto simp: Latest_def Let_def split: option.splits)
  from Latest_loop_result[OF l] e' have le: "lasterr rows' = fault rows"
    and m: "out = map snippet_of_row (pending rows)"
    and sc: "\<forall>r\<in>set (pending rows). scan_err drv r = None"
    by simp_all
  from le err have "fault rows = None" by (simp add: Rows_Err_def)
  with rows have re: "rows_err drv = None"
    by (cases "rows_err drv") (auto simp: open_cursor_def)
  with rows have "pending rows = select_latest db" by (simp add: open_cursor_def)
  with qe re m sc out show ?thesis by simp
qed

text \<open>The part of claim C1 that the code does keep: never more than 10 snippets.\<close>

lemma Latest_at_most_10:
  assumes "fst (Latest drv db) = (Some ss, e)"
  shows "length ss \<le> 10"
  using Latest_Some[OF assms] by (simp add: select_latest_def)

lemma Latest_cursor_error:
  assumes q: "LatestStmt_Query drv db = Inr rows" and e: "fault rows = Some e"
  shows "\<exists>e'. fst (Latest drv db) = (None, Some e')"
    and "(\<forall>r\<in>set (pending rows). scan_err drv r = None) \<Longrightarrow>
           fst (Latest drv db) = (None, Some (SqlError e))"
proof -
  obtain e' out rows' where l: "Latest_loop drv rows [] = (e', out, rows')"
    by (cases "Latest_loop drv rows []") auto
  from Latest_loop_result[OF l] e have err: "e' = None \<Longrightarrow> Rows_Err rows' = Some e"
    by (simp add: Rows_Err_def)
  show "\<exists>e'. fst (Latest drv db) = (None, Some e')"
    using q l err by (cases e') (simp_all add: Latest_def Let_def)
  assume "\<forall>r\<in>set (pending rows). scan_err drv r = None"
  with Latest_loop_result[OF l] have "e' = None" by (cases e') auto
  with q l err show "fst (Latest drv db) = (None, Some (SqlError e))"
    by (simp add: Latest_def Let_def)
qed

lemma Latest_all_rows:
  assumes q: "LatestStmt_Query drv db = Inr rows" and f: "fault rows = None"
    and sc: "\<forall>r\<in>set (pending rows). scan_err drv r = None"
  shows "fst (Latest drv db) = (Some (map snippet_of_row (pending rows)), None)"
proof -
  from Latest_loop_scans[OF sc] f obtain rows'
    where "Latest_loop drv rows [] = (None, map snippet_of_row (pending rows), rows')"
      and "Rows_Err rows' = None"
    by auto
  with q show ?thesis by (simp add: Latest_def Let_def)
qed

lemma Latest_Some_cursor:
  assumes q: "LatestStmt_Query drv db = Inr rows" and s: "fst (Latest drv db) = (Some ss, e)"
  shows "fault rows = None \<and> ss = map snippet_of_row (pending rows)"
proof -
  from q have rows: "rows = open_cursor drv (select_latest db)"
    by (simp add: LatestStmt_Query_def Stmt_Query_def split: option.splits)
  from Latest_Some[OF s] rows show ?thesis by (simp add: open_cursor_def)
qed

lemma order_by_id_desc_strict:
  assumes "distinct (map col_id rs)"
  shows "sorted_wrt (\<lambda>a b. col_id a > col_id b) (order_by_id_desc rs)"
proof -
  let ?k = "\<lambda>r. - col_id r"
  have "distinct (map col_id (sort_key ?k rs))"
    using assms by (simp add: distinct_map)
  hence "distinct (map ?k (sort_key ?k rs))"
    by (simp add: distinct_map inj_on_def)
  moreover have "sorted (map ?k (sort_key ?k rs))" by simp
  ultimately have "sorted_wrt (<) (map ?k (sort_key ?k rs))"
    by (simp add: strict_sorted_iff)
  then show ?thesis
    by (simp add: sorted_wrt_map order_by_id_desc_def)
qed

section \<open>The example data, evaluated\<close>

lemma primary_key_example: "primary_key example_db"
  by (simp add: primary_key_def example_db_def cols)

lemma Latest_example:
  "fst (Latest healthy example_db) =
     (Some [\<lparr>ID = 3, title = ''third'', content = ''three'', created = 10, expires = 500\<rparr>,
            \<lparr>ID = 2, title = ''second'', content = ''two'', created = 5, expires = 300\<rparr>,
            \<lparr>ID = 1, title = ''first'', content = ''one'', created = 0, expires = 50\<rparr>], None)"
  by (simp add: Latest_def LatestStmt_Query_def select_latest_def order_by_id_desc_def
        example_db_def healthy_def sql_defs cols Latest_loop.simps)

lemma Get_example_expired:
  "fst (Get healthy 100 example_db 1) = (None, Some ErrNoRecord)"
  by (simp add: Get_def GetStmt_QueryRow_def select_by_id_def sql_errors_Is_def
        example_db_def healthy_def sql_defs cols)

lemma Get_example_live:
  "fst (Get healthy 100 example_db 3) =
     (Some \<lparr>ID = 3, title = ''third'', content = ''three'', created = 10, expires = 500\<rparr>, None)"
  by (simp add: Get_def GetStmt_QueryRow_def select_by_id_def sql_errors_Is_def
        example_db_def healthy_def sql_defs cols)

lemma Get_example_absent:
  "fst (Get healthy 100 (snippets example_app) 9) = (None, Some ErrNoRecord)"
  by (simp add: Get_def GetStmt_QueryRow_def select_by_id_def sql_errors_Is_def
        example_db_def example_app_def healthy_def sql_defs cols)

lemma Insert_example:
  "Insert healthy 100 example_db ''a'' ''b'' 7 =
     ((4, None), insert_snippet 100 ''a'' ''b'' 7 (submit (InsertSnippet ''a'' ''b'' 7) example_db))"
  by (simp add: Insert_def InsertStmt_Exec_def Result_LastInsertId_def healthy_def Let_def
        submit_def example_db_def)

lemma Latest_broken_example:
  "LatestStmt_Query broken_cursor example_db =
     Inr \<lparr>pending = [(3, ''third'', ''three'', 10, 500)],
          fault = Some (DriverError ''invalid connection''), lasterr = None\<rparr>"
  by (simp add: LatestStmt_Query_def select_latest_def order_by_id_desc_def
        example_db_def healthy_def broken_cursor_def sql_defs cols)

lemma Latest_healthy_example:
  "LatestStmt_Query healthy example_db =
     Inr \<lparr>pending = [(3, ''third'', ''three'', 10, 500), (2, ''second'', ''two'', 5, 300),
                     (1, ''first'', ''one'', 0, 50)],
          fault = None, lasterr = None\<rparr>"
  by (simp add: LatestStmt_Query_def select_latest_def order_by_id_desc_def
        example_db_def healthy_def sql_defs cols)

lemma Row_Scan_failing_example:
  "Row_Scan failing_driver (GetStmt_QueryRow failing_driver 100 example_db 3) =
     Inl (DriverError ''bad connection'')"
  by (simp add: Row_Scan_def GetStmt_QueryRow_def Stmt_Query_def failing_driver_def healthy_def)

lemma Row_Scan_failing_scan_example:
  "Row_Scan failing_scan (GetStmt_QueryRow failing_scan 100 example_db 3) =
     Inl (DriverError ''unsupported Scan'')"
  by (simp add: GetStmt_QueryRow_def select_by_id_def example_db_def failing_scan_def healthy_def
        sql_defs cols)

lemma Row_Scan_failing_cursor_example:
  "Row_Scan failing_cursor (GetStmt_QueryRow failing_cursor 100 example_db 3) =
     Inl (DriverError ''invalid connection'')"
  by (simp add: GetStmt_QueryRow_def select_by_id_def example_db_def failing_cursor_def
        healthy_def sql_defs cols)

lemma Atoi_example:
  "Atoi (Values_Get (URL_Query (view_request [(''id'', ''9'')])) ''id'') = (9, None)"
  by (simp add: atoi_defs view_request_def)

section \<open>The id parameter and the responses\<close>

lemma foldl_digits_nonneg:
  "list_all is_digit ds \<Longrightarrow> 0 \<le> a \<Longrightarrow> 0 \<le> foldl (\<lambda>n c. n * 10 + digit_val c) a ds"
  by (induction ds arbitrary: a) (auto simp: is_digit_def digit_val_def)

lemma digits_val_nonneg: "list_all is_digit ds \<Longrightarrow> 0 \<le> digits_val ds"
  by (simp add: digits_val_def foldl_digits_nonneg)

text \<open>
  \<open>Atoi\<close> gives an error or a value below 1 for a string without digits, with a character
  that is no digit, of value zero, or with a minus sign.
\<close>

lemma Atoi_rejects:
  assumes "unsigned s = [] \<or> \<not> list_all is_digit (unsigned s) \<or>
           digits_val (unsigned s) = 0 \<or> negative s"
  shows "snd (Atoi s) \<noteq> None \<or> fst (Atoi s) < 1"
proof (cases "unsigned s = [] \<or> \<not> list_all is_digit (unsigned s)")
  case True
  then show ?thesis by (auto simp: Atoi_def Let_def)
next
  case False
  then have d: "0 \<le> digits_val (unsigned s)" by (simp add: digits_val_nonneg)
  from False assms have "digits_val (unsigned s) = 0 \<or> negative s" by blast
  with d False show ?thesis by (auto simp: Atoi_def Let_def)
qed

lemma Values_Get_missing: "map_of vs key = None \<Longrightarrow> Values_Get vs key = []"
  by (simp add: Values_Get_def)

lemma snippetView_rejects:
  assumes "snd (Atoi (Values_Get (URL_Query r) ''id'')) \<noteq> None \<or>
           fst (Atoi (Values_Get (URL_Query r) ''id'')) < 1"
  shows "snippetView show_time drv now stack app w r = (notFound w, app)"
  using assms by (cases "Atoi (Values_Get (URL_Query r) ''id'')") (auto simp: snippetView_def)

lemma snippetView_absent:
  assumes "Atoi (Values_Get (URL_Query r) ''id'') = (n, None)" and "1 \<le> n"
    and "fst (Get drv now (snippets app) n) = (None, Some ErrNoRecord)"
  shows "fst (snippetView show_time drv now stack app w r) = notFound w"
  using assms
  by (cases "Get drv now (snippets app) n")
     (auto simp: snippetView_def Let_def errors_Is_def)

lemma Status_http_Error:
  "Status w = 0 \<Longrightarrow> Status (http_Error w msg code) = (if code = 0 then 200 else code)"
  by (simp add: http_Error_def Write_def WriteHeader_def Header_Set_def Header_Del_def Let_def)

lemma Body_http_Error: "Body (http_Error w msg code) = Body w @ msg @ LF"
  by (simp add: http_Error_def Write_def WriteHeader_def Header_Set_def Header_Del_def Let_def)

lemma Header_http_Error:
  "Status w = 0 \<Longrightarrow> Header (http_Error w msg code) =
     AList.update ''X-Content-Type-Options'' ''nosniff''
       (AList.update ''Content-Type'' ''text/plain; charset=utf-8''
         (AList.delete ''Content-Length'' (Header w)))"
  by (simp add: http_Error_def Write_def WriteHeader_def Header_Set_def Header_Del_def Let_def)

lemma serverError_response:
  "fst (serverError stack app w err) = http_Error w ''Internal Server Error'' 500"
  by (simp add: serverError_def Let_def StatusText_def)

lemma serverError_log:
  "snd (serverError (caller # outer) app w err) =
     app\<lparr>errorLog := errorLog app @
        [\<lparr>location = Some caller,
          message = Error err @ LF @ frame_text (Frame ''serverError'' 13) @
                    debug_Stack (caller # outer)\<rparr>]\<rparr>"
  by (simp add: serverError_def Let_def Logger_Output_def runtime_Caller_def debug_Stack_def)

section \<open>The claims\<close>

text \<open>
  C1. For every state of storage and every call time, \<open>Latest\<close> returns at most 10
  snippets and none whose expiry is at or before the call time. The statement prepared
  for \<open>Latest\<close> has no \<open>WHERE expires > NOW()\<close>, unlike the statement kept in the
  comment of the method and unlike the one of \<open>Get\<close>: on the example table \<open>Latest\<close>
  lists snippet 1, which expired at time 50, whatever the call time is, while \<open>Get\<close>
  at time 100 reports no record for it.
\<close>

theorem Latest_lists_expired_snippet:
  "fst (Latest healthy example_db) =
     (Some [\<lparr>ID = 3, title = ''third'', content = ''three'', created = 10, expires = 500\<rparr>,
            \<lparr>ID = 2, title = ''second'', content = ''two'', created = 5, expires = 300\<rparr>,
            \<lparr>ID = 1, title = ''first'', content = ''one'', created = 0, expires = 50\<rparr>], None) \<and>
   expires \<lparr>ID = 1, title = ''first'', content = ''one'', created = 0, expires = 50\<rparr> < (100 :: time) \<and>
   fst (Get healthy 100 example_db 1) = (None, Some ErrNoRecord)"
  using Latest_example Get_example_expired by simp

text \<open>
  C2. Insert/Get round trip: when \<open>Insert\<close> returns an identifier without error on a
  table with its primary key, a \<open>Get\<close> of that identifier which runs before the snippet
  expires and meets no driver fault succeeds and returns the inserted title and content.
  With a positive number of days this covers every \<open>Get\<close> at the time of the insert.
\<close>

theorem Insert_Get_roundtrip:
  assumes pk: "primary_key db"
    and ins: "Insert drv now db t c days = ((i, None), db')"
    and live: "now' < now + days * seconds_per_day"
    and ok: "query_err drv' = None" "rows_err drv' = None" "\<forall>r. scan_err drv' r = None"
  shows "\<exists>s. fst (Get drv' now' db' i) = (Some s, None) \<and> title s = t \<and> content s = c"
proof -
  from Insert_ok[OF ins] have i: "i = auto_increment db"
    and db': "db' = insert_snippet now t c days (submit (InsertSnippet t c days) db)"
    by simp_all
  let ?r = "(auto_increment db, t, c, now, now + days * seconds_per_day)"
  have sel: "select_by_id now' i db' = [?r]"
    unfolding i db' by (rule select_inserted[OF pk live])
  from ok have "Row_Scan drv' (GetStmt_QueryRow drv' now' db' i) = Inr (snippet_of_row ?r)"
    by (simp add: sel Row_Scan_def GetStmt_QueryRow_def Stmt_Query_def open_cursor_def
          Rows_Next_def Rows_Scan_def)
  then have "fst (Get drv' now' db' i) = (Some (snippet_of_row ?r), None)"
    by (simp add: Get_def Let_def)
  moreover have "title (snippet_of_row ?r) = t" "content (snippet_of_row ?r) = c"
    by (simp_all add: snippet_of_row_def col_title_def col_content_def)
  ultimately show ?thesis by blast
qed

theorem Insert_Get_roundtrip_witness:
  "(0::int) < 7 \<and>
   Insert healthy 100 example_db ''a'' ''b'' 7 =
     ((4, None), insert_snippet 100 ''a'' ''b'' 7 (submit (InsertSnippet ''a'' ''b'' 7) example_db)) \<and>
   (\<exists>s. fst (Get healthy 100
            (insert_snippet 100 ''a'' ''b'' 7 (submit (InsertSnippet ''a'' ''b'' 7) example_db)) 4) =
          (Some s, None) \<and> title s = ''a'' \<and> content s = ''b'')"
proof -
  have live: "(100::int) < 100 + 7 * seconds_per_day" by (simp add: seconds_per_day_def)
  have ok: "query_err healthy = None" "rows_err healthy = None" "\<forall>r. scan_err healthy r = None"
    by (simp_all add: healthy_def)
  from Insert_Get_roundtrip[OF primary_key_example Insert_example live ok] Insert_example
  show ?thesis by simp
qed

text \<open>
  C3. When the driver runs the query without fault and no row with identifier \<open>i\<close> is
  live at the call time (there is none, or it has expired), \<open>Get\<close> fails with
  \<open>ErrNoRecord\<close>, which \<open>errors.Is\<close> recognises. On every call, an error of
  \<open>row.Scan\<close> that \<open>errors.Is\<close> does not take for \<open>sql.ErrNoRows\<close> comes back from
  \<open>Get\<close> as it is and is no \<open>ErrNoRecord\<close> for \<open>errors.Is\<close>, whatever its message; and
  \<open>Get\<close> answers with an \<open>ErrNoRecord\<close> only when \<open>row.Scan\<close> reported
  \<open>sql.ErrNoRows\<close> (the test of line 160, which also takes an error that wraps it).
\<close>

theorem Get_not_found:
  assumes "query_err drv = None" and "rows_err drv = None"
    and "\<forall>r\<in>set (snippets_table db). col_id r = i \<longrightarrow> col_expires r \<le> now"
  shows "fst (Get drv now db i) = (None, Some ErrNoRecord) \<and>
         errors_Is ErrNoRecord ErrNoRecord \<and>
         (\<forall>drv' now' db' j e.
            Row_Scan drv' (GetStmt_QueryRow drv' now' db' j) = Inl e \<and>
            \<not> sql_errors_Is e ErrNoRows \<longrightarrow>
            fst (Get drv' now' db' j) = (None, Some (SqlError e)) \<and>
            \<not> errors_Is (SqlError e) ErrNoRecord) \<and>
         (\<forall>drv' now' db' j s err.
            fst (Get drv' now' db' j) = (s, Some err) \<and> errors_Is err ErrNoRecord \<longrightarrow>
            (\<exists>e. Row_Scan drv' (GetStmt_QueryRow drv' now' db' j) = Inl e \<and>
                 sql_errors_Is e ErrNoRows))"
proof -
  from assms(3) have "select_by_id now i db = []"
    by (auto simp: select_by_id_def filter_empty_conv)
  with assms(1,2) have "Row_Scan drv (GetStmt_QueryRow drv now db i) = Inl ErrNoRows"
    by (simp add: Row_Scan_def GetStmt_QueryRow_def Stmt_Query_def open_cursor_def
          Rows_Next_def Rows_Err_def)
  then have 1: "fst (Get drv now db i) = (None, Some ErrNoRecord)"
    by (simp add: Get_def Let_def sql_errors_Is_def)
  have 2: "errors_Is ErrNoRecord ErrNoRecord" by (simp add: errors_Is_def)
  have 3: "fst (Get drv' now' db' j) = (None, Some (SqlError e)) \<and>
           \<not> errors_Is (SqlError e) ErrNoRecord"
    if "Row_Scan drv' (GetStmt_QueryRow drv' now' db' j) = Inl e \<and> \<not> sql_errors_Is e ErrNoRows"
    for drv' now' db' j e
    using that by (auto simp: Get_result errors_Is_def)
  have 4: "\<exists>e. Row_Scan drv' (GetStmt_QueryRow drv' now' db' j) = Inl e \<and> sql_errors_Is e ErrNoRows"
    if "fst (Get drv' now' db' j) = (s, Some err) \<and> errors_Is err ErrNoRecord"
    for drv' now' db' j s err
    using that
    by (cases "Row_Scan drv' (GetStmt_QueryRow drv' now' db' j)")
       (auto simp: Get_result errors_Is_def split: if_splits)
  from 1 2 3 4 show ?thesis by blast
qed

theorem Get_not_found_witness:
  "fst (Get healthy 100 example_db 1) = (None, Some ErrNoRecord) \<and>
   fst (Get healthy 100 example_db 9) = (None, Some ErrNoRecord) \<and>
   errors_Is ErrNoRecord ErrNoRecord \<and>
   fst (Get failing_driver 100 example_db 3) = (None, Some (SqlError (DriverError ''bad connection''))) \<and>
   \<not> errors_Is (SqlError (DriverError ''bad connection'')) ErrNoRecord"
proof -
  have q: "query_err healthy = None" "rows_err healthy = None"
    by (simp_all add: healthy_def)
  have expired: "\<forall>r\<in>set (snippets_table example_db). col_id r = 1 \<longrightarrow> col_expires r \<le> 100"
    by (simp add: example_db_def cols)
  have absent: "\<forall>r\<in>set (snippets_table example_db). col_id r = 9 \<longrightarrow> col_expires r \<le> 100"
    by (simp add: example_db_def cols)
  have other: "\<not> sql_errors_Is (DriverError ''bad connection'') ErrNoRows"
    by (simp add: sql_errors_Is_def)
  from Get_not_found[OF q absent] Row_Scan_failing_example other
  have "fst (Get failing_driver 100 example_db 3) =
          (None, Some (SqlError (DriverError ''bad connection''))) \<and>
        \<not> errors_Is (SqlError (DriverError ''bad connection'')) ErrNoRecord"
    by blast
  with Get_not_found[OF q expired] Get_not_found[OF q absent] show ?thesis by blast
qed

text \<open>
  C4. Once the query of \<open>Latest\<close> has opened a cursor, which reports no error yet:
  the loop ends without a scan error only on the emptied cursor, on which \<open>Err()\<close> then
  reports the cursor's fault; a list that \<open>Latest\<close> returns has one snippet for every row
  of the cursor, in order, and the cursor had no fault; without fault and scan error
  \<open>Latest\<close> returns that list; and whenever the cursor ends with a fault, \<open>Latest\<close>
  returns no list and an error, which is the cursor's fault when every row was mapped.
\<close>

theorem Latest_checks_cursor_error:
  assumes "LatestStmt_Query drv db = Inr rows"
  shows "Rows_Err rows = None \<and>
         (\<forall>ss rows'. Latest_loop drv rows [] = (None, ss, rows') \<longrightarrow>
            pending rows' = [] \<and> Rows_Err rows' = fault rows \<and>
            length ss = length (pending rows)) \<and>
         (\<forall>ss. fst (Latest drv db) = (Some ss, None) \<longrightarrow>
            fault rows = None \<and> ss = map snippet_of_row (pending rows)) \<and>
         (fault rows = None \<and> list_all (\<lambda>r. scan_err drv r = None) (pending rows) \<longrightarrow>
            fst (Latest drv db) = (Some (map snippet_of_row (pending rows)), None)) \<and>
         (\<forall>e. fault rows = Some e \<longrightarrow>
            (\<exists>e'. fst (Latest drv db) = (None, Some e')) \<and>
            (list_all (\<lambda>r. scan_err drv r = None) (pending rows) \<longrightarrow>
               fst (Latest drv db) = (None, Some (SqlError e))))"
proof -
  from assms have "rows = open_cursor drv (select_latest db)"
    by (simp add: LatestStmt_Query_def Stmt_Query_def split: option.splits)
  then have 1: "Rows_Err rows = None" by (simp add: open_cursor_fresh)
  have 2: "\<forall>ss rows'. Latest_loop drv rows [] = (None, ss, rows') \<longrightarrow>
            pending rows' = [] \<and> Rows_Err rows' = fault rows \<and>
            length ss = length (pending rows)"
    using Latest_loop_drains by fastforce
  have 3: "\<forall>ss. fst (Latest drv db) = (Some ss, None) \<longrightarrow>
            fault rows = None \<and> ss = map snippet_of_row (pending rows)"
    using Latest_Some_cursor[OF assms] by blast
  have 4: "fault rows = None \<and> list_all (\<lambda>r. scan_err drv r = None) (pending rows) \<longrightarrow>
            fst (Latest drv db) = (Some (map snippet_of_row (pending rows)), None)"
    using Latest_all_rows[OF assms] by (simp add: list_all_iff)
  have 5: "\<forall>e. fault rows = Some e \<longrightarrow>
            (\<exists>e'. fst (Latest drv db) = (None, Some e')) \<and>
            (list_all (\<lambda>r. scan_err drv r = None) (pending rows) \<longrightarrow>
               fst (Latest drv db) = (None, Some (SqlError e)))"
    using Latest_cursor_error[OF assms] by (simp add: list_all_iff)
  from 1 2 3 4 5 show ?thesis by blast
qed

theorem Latest_checks_cursor_error_witness:
  "LatestStmt_Query broken_cursor example_db =
     Inr \<lparr>pending = [(3, ''third'', ''three'', 10, 500)],
          fault = Some (DriverError ''invalid connection''), lasterr = None\<rparr> \<and>
   fst (Latest broken_cursor example_db) =
     (None, Some (SqlError (DriverError ''invalid connection''))) \<and>
   fst (Latest healthy example_db) =
     (Some (map snippet_of_row
        [(3, ''third'', ''three'', 10, 500), (2, ''second'', ''two'', 5, 300),
         (1, ''first'', ''one'', 0, 50)]), None)"
proof -
  let ?rows = "\<lparr>pending = [(3, ''third'', ''three'', 10, 500)],
          fault = Some (DriverError ''invalid connection''), lasterr = None\<rparr>"
  let ?all = "\<lparr>pending = [(3, ''third'', ''three'', 10, 500), (2, ''second'', ''two'', 5, 300),
                     (1, ''first'', ''one'', 0, 50)],
          fault = None, lasterr = None\<rparr>"
  have e: "fault ?rows = Some (DriverError ''invalid connection'')" by simp
  have sc: "list_all (\<lambda>r. scan_err broken_cursor r = None) (pending ?rows)"
    by (simp add: broken_cursor_def healthy_def)
  from Latest_checks_cursor_error[OF Latest_broken_example] e sc
  have b: "fst (Latest broken_cursor example_db) =
          (None, Some (SqlError (DriverError ''invalid connection'')))"
    by blast
  have f: "fault ?all = None" by simp
  have sc': "list_all (\<lambda>r. scan_err healthy r = None) (pending ?all)"
    by (simp add: healthy_def)
  from Latest_checks_cursor_error[OF Latest_healthy_example] f sc'
  have "fst (Latest healthy example_db) = (Some (map snippet_of_row (pending ?all)), None)"
    by blast
  then have h: "fst (Latest healthy example_db) =
     (Some (map snippet_of_row
        [(3, ''third'', ''three'', 10, 500), (2, ''second'', ''two'', 5, 300),
         (1, ''first'', ''one'', 0, 50)]), None)"
    by simp
  from Latest_broken_example b h show ?thesis by blast
qed

text \<open>
  C5. On a table with its primary key, the list of a successful \<open>Latest\<close> is in strictly
  descending order of identifier.
\<close>

theorem Latest_sorted_descending:
  assumes "primary_key db" and "fst (Latest drv db) = (Some ss, None)"
  shows "sorted_wrt (>) (map ID ss)"
proof -
  from Latest_Some[OF assms(2)] have s: "ss = map snippet_of_row (select_latest db)"
    by simp
  from assms(1) have "distinct (map col_id (snippets_table db))"
    by (simp add: primary_key_def)
  from order_by_id_desc_strict[OF this]
  have "sorted_wrt (\<lambda>a b. col_id a > col_id b) (select_latest db)"
    unfolding select_latest_def by (rule sorted_wrt_take)
  then show ?thesis
    by (simp add: s sorted_wrt_map snippet_of_row_def o_def)
qed

theorem Latest_sorted_descending_witness:
  "fst (Latest healthy example_db) =
     (Some [\<lparr>ID = 3, title = ''third'', content = ''three'', created = 10, expires = 500\<rparr>,
            \<lparr>ID = 2, title = ''second'', content = ''two'', created = 5, expires = 300\<rparr>,
            \<lparr>ID = 1, title = ''first'', content = ''one'', created = 0, expires = 50\<rparr>], None) \<and>
   sorted_wrt (>) (map ID
           [\<lparr>ID = 3, title = ''third'', content = ''three'', created = 10, expires = 500\<rparr>,
            \<lparr>ID = 2, title = ''second'', content = ''two'', created = 5, expires = 300\<rparr>,
            \<lparr>ID = 1, title = ''first'', content = ''one'', created = 0, expires = 50\<rparr>])"
  by (rule conjI[OF Latest_example
        Latest_sorted_descending[OF primary_key_example Latest_example]])

text \<open>
  C6. Each of \<open>Insert\<close>, \<open>Get\<close> and \<open>Latest\<close> returns either a nil error, and then no
  library call on its path reported a fault, or a non-nil error together with 0, a nil
  snippet or a nil list. For \<open>Get\<close>: a nil error comes with the snippet that
  \<open>row.Scan\<close> filled without error from the first row of the query, and a non-nil error
  is the one \<open>row.Scan\<close> reported, with \<open>ErrNoRecord\<close> in the place of
  \<open>sql.ErrNoRows\<close>.
\<close>

theorem failure_paths_return_error:
  "(case fst (Insert drv now db t c d) of
      (i, None) \<Rightarrow> exec_err drv = None \<and> last_insert_id_err drv = None
    | (i, Some e) \<Rightarrow> i = 0) \<and>
   (case fst (Get drv now db k) of
      (s, None) \<Rightarrow>
        (\<exists>s'. s = Some s' \<and> Row_Scan drv (GetStmt_QueryRow drv now db k) = Inr s') \<and>
        query_err drv = None \<and>
        (\<exists>r rest. select_by_id now k db = r # rest \<and> scan_err drv r = None \<and>
                   s = Some (snippet_of_row r)) \<and>
        (case rows_err drv of None \<Rightarrow> True | Some (n, e) \<Rightarrow> 0 < n)
    | (s, Some e) \<Rightarrow>
        s = None \<and>
        (\<exists>e'. Row_Scan drv (GetStmt_QueryRow drv now db k) = Inl e' \<and>
              e = (if sql_errors_Is e' ErrNoRows then ErrNoRecord else SqlError e'))) \<and>
   (case fst (Latest drv db) of
      (ss, None) \<Rightarrow> ss \<noteq> None \<and> query_err drv = None \<and> rows_err drv = None \<and>
                    list_all (\<lambda>r. scan_err drv r = None) (select_latest db)
    | (ss, Some e) \<Rightarrow> ss = None)"
proof (intro conjI)
  show "case fst (Insert drv now db t c d) of
      (i, None) \<Rightarrow> exec_err drv = None \<and> last_insert_id_err drv = None
    | (i, Some e) \<Rightarrow> i = 0"
    by (simp add: Insert_result split: option.splits)
  show "case fst (Get drv now db k) of
      (s, None) \<Rightarrow>
        (\<exists>s'. s = Some s' \<and> Row_Scan drv (GetStmt_QueryRow drv now db k) = Inr s') \<and>
        query_err drv = None \<and>
        (\<exists>r rest. select_by_id now k db = r # rest \<and> scan_err drv r = None \<and>
                   s = Some (snippet_of_row r)) \<and>
        (case rows_err drv of None \<Rightarrow> True | Some (n, e) \<Rightarrow> 0 < n)
    | (s, Some e) \<Rightarrow>
        s = None \<and>
        (\<exists>e'. Row_Scan drv (GetStmt_QueryRow drv now db k) = Inl e' \<and>
              e = (if sql_errors_Is e' ErrNoRows then ErrNoRecord else SqlError e'))"
  proof (cases "Row_Scan drv (GetStmt_QueryRow drv now db k)")
    case (Inl e')
    then show ?thesis by (simp add: Get_result)
  next
    case (Inr s')
    then have g: "fst (Get drv now db k) = (Some s', None)" by (simp add: Get_result)
    from Inr have sc: "Row_Scan drv (Stmt_Query drv (select_by_id now k db)) = Inr s'"
      by (simp add: GetStmt_QueryRow_def)
    from Row_Scan_Inr[OF sc] obtain r rest
      where sel: "select_by_id now k db = r # rest" and r: "scan_err drv r = None"
        and s': "s' = snippet_of_row r"
      by blast
    from sc have qe: "query_err drv = None"
      by (cases "query_err drv") (simp_all add: Stmt_Query_def Row_Scan_def)
    have re: "case rows_err drv of None \<Rightarrow> True | Some (n, e) \<Rightarrow> 0 < n"
    proof (cases "rows_err drv")
      case None
      then show ?thesis by simp
    next
      case (Some ne)
      obtain n e where ne: "ne = (n, e)" by (cases ne)
      have "0 < n"
      proof (rule ccontr)
        assume "\<not> 0 < n"
        with Some ne qe sc show False
          by (simp add: Stmt_Query_def Row_Scan_def open_cursor_def Rows_Next_def Rows_Err_def)
      qed
      with Some ne show ?thesis by simp
    qed
    from g Inr sel r s' qe re show ?thesis by simp
  qed
  show "case fst (Latest drv db) of
      (ss, None) \<Rightarrow> ss \<noteq> None \<and> query_err drv = None \<and> rows_err drv = None \<and>
                    list_all (\<lambda>r. scan_err drv r = None) (select_latest db)
    | (ss, Some e) \<Rightarrow> ss = None"
  proof (cases "fst (Latest drv db)")
    case (Pair ss err)
    show ?thesis
    proof (cases err)
      case None
      with Pair obtain l where l: "ss = Some l"
        by (auto simp: Latest_result split: sum.splits option.splits prod.splits)
      with Pair None Latest_Some[of drv db l None] show ?thesis
        by (simp add: list_all_iff)
    next
      case (Some e)
      with Pair show ?thesis
        by (auto simp: Latest_result split: sum.splits option.splits prod.splits)
    qed
  qed
qed

theorem failure_paths_return_error_witness:
  "fst (Insert failing_driver 100 example_db ''a'' ''b'' 7) =
     (0, Some (SqlError (DriverError ''bad connection''))) \<and>
   fst (Get failing_driver 100 example_db 3) =
     (None, Some (SqlError (DriverError ''bad connection''))) \<and>
   fst (Latest failing_driver example_db) =
     (None, Some (SqlError (DriverError ''bad connection''))) \<and>
   fst (Get failing_scan 100 example_db 3) =
     (None, Some (SqlError (DriverError ''unsupported Scan''))) \<and>
   fst (Get failing_cursor 100 example_db 3) =
     (None, Some (SqlError (DriverError ''invalid connection'')))"
proof -
  have other: "\<not> sql_errors_Is (DriverError ''unsupported Scan'') ErrNoRows"
    "\<not> sql_errors_Is (DriverError ''invalid connection'') ErrNoRows"
    by (simp_all add: sql_errors_Is_def)
  from failure_paths_return_error[of failing_scan 100 example_db "''a''" "''b''" 7 3]
    Row_Scan_failing_scan_example other
  have s: "fst (Get failing_scan 100 example_db 3) =
     (None, Some (SqlError (DriverError ''unsupported Scan'')))"
    by (cases "fst (Get failing_scan 100 example_db 3)") (auto split: option.splits)
  from failure_paths_return_error[of failing_cursor 100 example_db "''a''" "''b''" 7 3]
    Row_Scan_failing_cursor_example other
  have c: "fst (Get failing_cursor 100 example_db 3) =
     (None, Some (SqlError (DriverError ''invalid connection'')))"
    by (cases "fst (Get failing_cursor 100 example_db 3)") (auto split: option.splits)
  have i: "snd (fst (Insert failing_driver 100 example_db ''a'' ''b'' 7)) =
             Some (SqlError (DriverError ''bad connection''))"
    by (simp add: Insert_result failing_driver_def healthy_def)
  have g: "snd (fst (Get failing_driver 100 example_db 3)) =
             Some (SqlError (DriverError ''bad connection''))"
    by (simp add: Get_result Row_Scan_failing_example sql_errors_Is_def)
  have l: "snd (fst (Latest failing_driver example_db)) =
             Some (SqlError (DriverError ''bad connection''))"
    by (simp add: Latest_result LatestStmt_Query_def Stmt_Query_def failing_driver_def healthy_def)
  from failure_paths_return_error[of failing_driver 100 example_db "''a''" "''b''" 7 3] i g l
  have "fst (Insert failing_driver 100 example_db ''a'' ''b'' 7) =
     (0, Some (SqlError (DriverError ''bad connection''))) \<and>
   fst (Get failing_driver 100 example_db 3) =
     (None, Some (SqlError (DriverError ''bad connection''))) \<and>
   fst (Latest failing_driver example_db) =
     (None, Some (SqlError (DriverError ''bad connection'')))"
    by (auto split: prod.splits option.splits)
  with s c show ?thesis by blast
qed

text \<open>
  C7. A request to the view handler whose id parameter is missing, has no digits or a
  character that is no digit, denotes zero, or carries a minus sign is answered with
  \<open>notFound\<close>, status 404, and the application is left as it was: no statement is
  submitted to the database. The response is the one that any request with a well-formed
  positive id gets when \<open>Get\<close> finds no record.
\<close>

theorem snippetView_malformed_id:
  assumes s: "s = Values_Get (URL_Query r) ''id''"
    and bad: "map_of (URL_Query r) ''id'' = None \<or> unsigned s = [] \<or>
              \<not> list_all is_digit (unsigned s) \<or> digits_val (unsigned s) = 0 \<or> negative s"
    and fresh: "Status w = 0"
  shows "snippetView show_time drv now stack app w r = (notFound w, app) \<and>
         Status (notFound w) = 404 \<and>
         (\<forall>show_time' drv' now' stack' app' r' n.
            Atoi (Values_Get (URL_Query r') ''id'') = (n, None) \<and> 1 \<le> n \<and>
            fst (Get drv' now' (snippets app') n) = (None, Some ErrNoRecord) \<longrightarrow>
            fst (snippetView show_time' drv' now' stack' app' w r') =
            fst (snippetView show_time drv now stack app w r))"
proof -
  from bad have "unsigned s = [] \<or> \<not> list_all is_digit (unsigned s) \<or>
        digits_val (unsigned s) = 0 \<or> negative s"
    using Values_Get_missing[of "URL_Query r" "''id''"] s by (auto simp: unsigned_def)
  from Atoi_rejects[OF this]
  have 1: "snippetView show_time drv now stack app w r = (notFound w, app)"
    unfolding s by (rule snippetView_rejects)
  from fresh have 2: "Status (notFound w) = 404"
    by (simp add: notFound_def clientError_def Status_http_Error)
  from 1 show ?thesis using 2 snippetView_absent by auto
qed

theorem snippetView_malformed_id_witness:
  "snippetView Itoa healthy 100 [] example_app fresh_writer (view_request [(''id'', ''0'')]) =
     (notFound fresh_writer, example_app) \<and>
   snippetView Itoa healthy 100 [] example_app fresh_writer (view_request [(''id'', ''-5'')]) =
     (notFound fresh_writer, example_app) \<and>
   snippetView Itoa healthy 100 [] example_app fresh_writer (view_request [(''id'', ''abc'')]) =
     (notFound fresh_writer, example_app) \<and>
   snippetView Itoa healthy 100 [] example_app fresh_writer (view_request []) =
     (notFound fresh_writer, example_app) \<and>
   Status (notFound fresh_writer) = 404 \<and>
   fst (snippetView Itoa healthy 100 [] example_app fresh_writer (view_request [(''id'', ''9'')])) =
   fst (snippetView Itoa healthy 100 [] example_app fresh_writer (view_request [(''id'', ''-5'')]))"
proof -
  have fresh: "Status fresh_writer = 0" by (simp add: fresh_writer_def)
  have zero: "digits_val (unsigned (Values_Get (URL_Query (view_request [(''id'', ''0'')])) ''id'')) = 0"
    by (simp add: atoi_defs view_request_def)
  have neg: "negative (Values_Get (URL_Query (view_request [(''id'', ''-5'')])) ''id'')"
    by (simp add: atoi_defs view_request_def)
  have abc: "\<not> list_all is_digit
                 (unsigned (Values_Get (URL_Query (view_request [(''id'', ''abc'')])) ''id''))"
    by (simp add: atoi_defs view_request_def)
  have missing: "map_of (URL_Query (view_request [])) ''id'' = None"
    by (simp add: view_request_def)
  note inst = snippetView_malformed_id[OF refl _ fresh, of _ Itoa healthy 100 "[]" example_app]
  from inst[of "view_request [(''id'', ''0'')]"] zero
  have z: "snippetView Itoa healthy 100 [] example_app fresh_writer (view_request [(''id'', ''0'')]) =
     (notFound fresh_writer, example_app)" by blast
  from inst[of "view_request [(''id'', ''abc'')]"] abc
  have a: "snippetView Itoa healthy 100 [] example_app fresh_writer (view_request [(''id'', ''abc'')]) =
     (notFound fresh_writer, example_app)" by blast
  from inst[of "view_request []"] missing
  have m: "snippetView Itoa healthy 100 [] example_app fresh_writer (view_request []) =
     (notFound fresh_writer, example_app)" by blast
  from inst[of "view_request [(''id'', ''-5'')]"] neg
  have n: "snippetView Itoa healthy 100 [] example_app fresh_writer (view_request [(''id'', ''-5'')]) =
     (notFound fresh_writer, example_app) \<and>
         Status (notFound fresh_writer) = 404 \<and>
         (\<forall>show_time' drv' now' stack' app' r' n.
            Atoi (Values_Get (URL_Query r') ''id'') = (n, None) \<and> 1 \<le> n \<and>
            fst (Get drv' now' (snippets app') n) = (None, Some ErrNoRecord) \<longrightarrow>
            fst (snippetView show_time' drv' now' stack' app' fresh_writer r') =
            fst (snippetView Itoa healthy 100 [] example_app fresh_writer
                   (view_request [(''id'', ''-5'')])))"
    by blast
  then have "fst (snippetView Itoa healthy 100 [] example_app fresh_writer
                    (view_request [(''id'', ''9'')])) =
             fst (snippetView Itoa healthy 100 [] example_app fresh_writer
                    (view_request [(''id'', ''-5'')]))"
    using Atoi_example Get_example_absent by force
  with z a m n show ?thesis by blast
qed

text \<open>
  C8. A request to the create handler with a method other than POST is answered with
  status 405, the header \<open>Allow: POST\<close> and the text of that status, and the application
  is left as it was: the table is unchanged and no statement is submitted.
\<close>

theorem snippetCreate_wrong_method:
  assumes "Method r \<noteq> ''POST''" and "Status w = 0"
  shows "Status (fst (snippetCreate drv now stack app w r)) = 405 \<and>
         map_of (Header (fst (snippetCreate drv now stack app w r))) ''Allow'' = Some ''POST'' \<and>
         Body (fst (snippetCreate drv now stack app w r)) = Body w @ ''Method Not Allowed'' @ LF \<and>
         snd (snippetCreate drv now stack app w r) = app"
  using assms
  by (simp add: snippetCreate_def clientError_def Status_http_Error Body_http_Error
        Header_http_Error Header_Set_def StatusText_def update_conv' delete_conv')

theorem snippetCreate_wrong_method_witness:
  "Status (fst (snippetCreate healthy 100 [] example_app fresh_writer (create_request ''GET''))) = 405 \<and>
   map_of (Header (fst (snippetCreate healthy 100 [] example_app fresh_writer (create_request ''GET''))))
     ''Allow'' = Some ''POST'' \<and>
   snd (snippetCreate healthy 100 [] example_app fresh_writer (create_request ''GET'')) = example_app"
proof -
  have m: "Method (create_request ''GET'') \<noteq> ''POST''" by (simp add: create_request_def)
  have fresh: "Status fresh_writer = 0" by (simp add: fresh_writer_def)
  from snippetCreate_wrong_method[OF m fresh] show ?thesis by blast
qed

text \<open>
  C9. Whatever the errors, the call stacks and the applications, \<open>serverError\<close> writes the
  same response to a fresh writer: status 500 and the text Internal Server Error. It
  appends one record to the error log and leaves the database alone; the record carries
  the location of the caller of \<open>serverError\<close>, and its message starts with the error's
  description and ends with the trace of the whole stack of the caller.
\<close>

theorem serverError_generic_response:
  assumes "Status w = 0"
  shows "fst (serverError stack1 app1 w err1) = fst (serverError stack2 app2 w err2) \<and>
         Status (fst (serverError stack1 app1 w err1)) = 500 \<and>
         Body (fst (serverError stack1 app1 w err1)) = Body w @ ''Internal Server Error'' @ LF \<and>
         (\<exists>entry. errorLog (snd (serverError (caller # outer) app w err)) = errorLog app @ [entry] \<and>
            location entry = Some caller \<and>
            prefix (Error err) (message entry) \<and>
            suffix (debug_Stack (caller # outer)) (message entry)) \<and>
         snippets (snd (serverError (caller # outer) app w err)) = snippets app"
  using assms
  by (simp add: serverError_response serverError_log Body_http_Error Status_http_Error
       suffix_def)

theorem serverError_generic_response_witness:
  "fst (serverError [Frame ''snippetView'' 71] example_app fresh_writer
          (SqlError (DriverError ''dial tcp 127.0.0.1:3306: connection refused''))) =
   fst (serverError [Frame ''snippetCreate'' 101, Frame ''ServeHTTP'' 1] example_app fresh_writer
          (SqlError ErrNoRows)) \<and>
   Status (fst (serverError [Frame ''snippetView'' 71] example_app fresh_writer
          (SqlError (DriverError ''dial tcp 127.0.0.1:3306: connection refused'')))) = 500 \<and>
   Body (fst (serverError [Frame ''snippetView'' 71] example_app fresh_writer
          (SqlError (DriverError ''dial tcp 127.0.0.1:3306: connection refused'')))) =
     ''Internal Server Error'' @ LF"
proof -
  have fresh: "Status fresh_writer = 0" by (simp add: fresh_writer_def)
  have body: "Body fresh_writer = []" by (simp add: fresh_writer_def)
  note inst = serverError_generic_response[OF fresh,
         of "[Frame ''snippetView'' 71]" example_app
            "SqlError (DriverError ''dial tcp 127.0.0.1:3306: connection refused'')"
            "[Frame ''snippetCreate'' 101, Frame ''ServeHTTP'' 1]" example_app
            "SqlError ErrNoRows"]
  from inst have same: "fst (serverError [Frame ''snippetView'' 71] example_app fresh_writer
          (SqlError (DriverError ''dial tcp 127.0.0.1:3306: connection refused''))) =
      fst (serverError [Frame ''snippetCreate'' 101, Frame ''ServeHTTP'' 1] example_app fresh_writer
          (SqlError ErrNoRows))"
    by (rule conjunct1)
  from inst have st: "Status (fst (serverError [Frame ''snippetView'' 71] example_app fresh_writer
          (SqlError (DriverError ''dial tcp 127.0.0.1:3306: connection refused'')))) = 500"
    by blast
  from inst have "Body (fst (serverError [Frame ''snippetView'' 71] example_app fresh_writer
          (SqlError (DriverError ''dial tcp 127.0.0.1:3306: connection refused'')))) =
      Body fresh_writer @ ''Internal Server Error'' @ LF"
    by blast
  with body have bd: "Body (fst (serverError [Frame ''snippetView'' 71] example_app fresh_writer
          (SqlError (DriverError ''dial tcp 127.0.0.1:3306: connection refused'')))) =
      ''Internal Server Error'' @ LF"
    by simp
  from same st bd show ?thesis by blast
qed

text \<open>
  C10. Whenever \<open>Get\<close> succeeds, the identifier of the snippet it returns is the one
  asked for.
\<close>

theorem Get_returns_requested_id:
  assumes "fst (Get drv now db i) = (Some s, None)"
  shows "ID s = i"
proof -
  from Row_Scan_Inr[OF Get_Some[OF assms]] obtain r rest
    where sel: "select_by_id now i db = r # rest" and s: "s = snippet_of_row r"
    by blast
  from sel have "r \<in> set (select_by_id now i db)" by simp
  then have "col_id r = i" by (simp add: select_by_id_def)
  with s show ?thesis by (simp add: snippet_of_row_def)
qed

theorem Get_returns_requested_id_witness:
  "fst (Get healthy 100 example_db 3) =
     (Some \<lparr>ID = 3, title = ''third'', content = ''three'', created = 10, expires = 500\<rparr>, None) \<and>
   ID \<lparr>ID = 3, title = ''third'', content = ''three'', created = 10, expires = 500\<rparr> = 3"
  by (rule conjI[OF Get_example_live Get_returns_requested_id[OF Get_example_live]])

end
